theory Spec2Isabelle
  imports Main "HOL-Library.Sublist"
begin

section \<open>Data model\<close>

text \<open>
  The tables are those of the schema migration (\<^verbatim>\<open>CREATE TABLE\<close> statements); a column
  without \<^verbatim>\<open>NOT NULL\<close> is an option, except \<^verbatim>\<open>documents.status\<close>, which the pages read
  as a plain string (\<^verbatim>\<open>document.status.replace\<close>, where nullable columns are read with
  \<^verbatim>\<open>?.\<close>) and which every write of the application sets. Text is an Isabelle string, one character per code
  unit (code units up to 0xFF). An instant (\<^verbatim>\<open>timestamptz\<close>, and the ISO string of
  \<^verbatim>\<open>new Date().toISOString()\<close> that the column parses back) and a \<^verbatim>\<open>date\<close> are integers
  on one time axis. Field names carry the table's prefix, since several tables share
  column names (\<^verbatim>\<open>id\<close>, \<^verbatim>\<open>status\<close>, \<^verbatim>\<open>created_at\<close>).
\<close>

type_synonym uuid = string
type_synonym timestamptz = int
type_synonym date = int

record Employee =
  emp_id :: uuid
  emp_email :: string
  emp_name :: string
  emp_phone :: "string option"
  emp_department :: "string option"
  emp_state :: "string option"
  emp_status :: "string option"
  emp_created_at :: timestamptz
  emp_updated_at :: timestamptz

record Document =
  doc_id :: uuid
  doc_employee_id :: "uuid option"
  doc_type :: "string option"
  doc_status :: string
  doc_source :: "string option"
  doc_file_url :: "string option"
  doc_file_name :: "string option"
  doc_file_size :: "int option"
  doc_issue_date :: "date option"
  doc_expiration_date :: "date option"
  doc_priority :: "string option"
  doc_notes :: "string option"
  doc_reviewed_by :: "string option"
  doc_reviewed_at :: "timestamptz option"
  doc_version :: "int option"
  doc_original_document_id :: "uuid option"
  doc_created_at :: timestamptz
  doc_updated_at :: timestamptz

record LegalHold =
  hold_id :: uuid
  hold_title :: string
  hold_reason :: "string option"
  hold_status :: "string option"
  hold_created_by :: string
  hold_employee_ids :: "uuid list option"
  hold_department :: "string option"
  hold_document_category :: "string option"
  hold_date_from :: "date option"
  hold_date_to :: "date option"
  hold_created_at :: timestamptz
  hold_released_at :: "timestamptz option"

record ActivityLog =
  log_id :: uuid
  log_entity_type :: string
  log_entity_id :: "uuid option"
  log_event_type :: string
  log_actor_name :: string
  log_actor_role :: string
  log_description :: string
  log_metadata :: string
  log_created_at :: timestamptz

text \<open>The database: each table is the list of its rows in insertion order.\<close>

record db =
  employees :: "Employee list"
  documents :: "Document list"
  legal_holds :: "LegalHold list"
  activity_logs :: "ActivityLog list"

text \<open>
  What a handler cannot decide itself: the browser's clock, the database's clock
  (\<^verbatim>\<open>now()\<close>), the two identifiers \<^verbatim>\<open>gen_random_uuid()\<close> draws for the handler's two
  inserts, and whether the service answers each of the handler's requests (the read, the
  first write, the second write) without an error.
\<close>

record world =
  client_now :: timestamptz
  db_now :: timestamptz
  uuid_first :: uuid
  uuid_second :: uuid
  read_ok :: bool
  write_ok :: bool
  log_ok :: bool

text \<open>The argument of a \<^verbatim>\<open>toast({...})\<close> call.\<close>

record toast =
  toast_title :: string
  toast_description :: string
  toast_variant :: "string option"

text \<open>
  How a handler ends without having done its work: \<open>NoDocument\<close> is the silent
  \<^verbatim>\<open>if (!document) return\<close>; \<open>ValidationError\<close> is a guard on the form's input that
  shows a destructive toast and returns before any request is sent; \<open>RequestFailed\<close> is
  the \<^verbatim>\<open>catch\<close> branch, taken when the first write answers with an error.
\<close>

datatype error = NoDocument | ValidationError toast | RequestFailed toast

section \<open>JavaScript string operations\<close>

definition startsWith :: "string \<Rightarrow> string \<Rightarrow> bool" where
  "startsWith s p = (take (length p) s = p)"

text \<open>
  The white space and line terminators that \<^verbatim>\<open>String.prototype.trim\<close> strips, among the
  code units up to 0xFF: TAB, LF, VT, FF, CR, SP and NBSP.
\<close>

definition isWhiteSpace :: "char \<Rightarrow> bool" where
  "isWhiteSpace c = (c \<in> set [CHR 0x09, CHR 0x0A, CHR 0x0B, CHR 0x0C, CHR 0x0D, CHR 0x20, CHR 0xA0])"

definition trim :: "string \<Rightarrow> string" where
  "trim s = rev (dropWhile isWhiteSpace (rev (dropWhile isWhiteSpace s)))"

text \<open>\<^verbatim>\<open>a || b\<close> on strings: the empty string is falsy.\<close>

definition or_else :: "string \<Rightarrow> string \<Rightarrow> string" where
  "or_else a b = (if a \<noteq> [] then a else b)"

section \<open>Upload page: file selection\<close>

record File =
  file_name :: string
  file_type :: string
  file_size :: nat

record FileWithPreview = File +
  preview :: "string option"

definition isValidType :: "File \<Rightarrow> bool" where
  "isValidType f = (file_type f = ''application/pdf'' \<or> startsWith (file_type f) ''image/'')"

definition isValidSize :: "File \<Rightarrow> bool" where
  "isValidSize f = (file_size f \<le> 10 * 1024 * 1024)"

text \<open>The callback of \<^verbatim>\<open>newFiles.filter\<close>: the toast it shows, if any, and its verdict.\<close>

definition checkFile :: "File \<Rightarrow> toast option \<times> bool" where
  "checkFile f =
     (if \<not> isValidType f then
        (Some \<lparr>toast_title = ''Invalid file type'',
               toast_description = file_name f @ '' is not a PDF or image file'',
               toast_variant = Some ''destructive''\<rparr>, False)
      else if \<not> isValidSize f then
        (Some \<lparr>toast_title = ''File too large'',
               toast_description = file_name f @ '' exceeds 10MB limit'',
               toast_variant = Some ''destructive''\<rparr>, False)
      else (None, True))"

text \<open>
  The callback of \<^verbatim>\<open>validFiles.map\<close>; \<open>createObjectURL\<close> stands for the browser's
  \<^verbatim>\<open>URL.createObjectURL\<close>.
\<close>

definition withPreview :: "(File \<Rightarrow> string) \<Rightarrow> File \<Rightarrow> FileWithPreview" where
  "withPreview createObjectURL f =
     File.extend f
       (FileWithPreview.fields
          (if startsWith (file_type f) ''image/'' then Some (createObjectURL f) else None))"

text \<open>\<^verbatim>\<open>handleFiles\<close>: the toasts shown, in order, and the new value of \<^verbatim>\<open>files\<close>.\<close>

definition handleFiles ::
  "(File \<Rightarrow> string) \<Rightarrow> FileWithPreview list \<Rightarrow> File list \<Rightarrow> toast list \<times> FileWithPreview list" where
  "handleFiles createObjectURL prev newFiles =
     (let validFiles = filter (\<lambda>f. snd (checkFile f)) newFiles;
          filesWithPreview = map (withPreview createObjectURL) validFiles
      in (List.map_filter (\<lambda>f. fst (checkFile f)) newFiles, prev @ filesWithPreview))"

text \<open>The acceptance condition in the words of the specification.\<close>

definition accepted :: "File \<Rightarrow> bool" where
  "accepted f =
     ((file_type f = ''application/pdf'' \<or> prefix ''image/'' (file_type f)) \<and> file_size f \<le> 10485760)"

section \<open>Requests to the database\<close>

text \<open>
  An insert into \<^verbatim>\<open>documents\<close>: refused (\<open>None\<close>) when the primary key is taken, when
  \<^verbatim>\<open>employee_id\<close> or \<^verbatim>\<open>original_document_id\<close> references no row, or when \<^verbatim>\<open>file_size\<close>
  does not fit the column's 32-bit \<^verbatim>\<open>integer\<close>; otherwise the row is appended.
\<close>

definition insert_into_documents :: "Document \<Rightarrow> db \<Rightarrow> db option" where
  "insert_into_documents r s =
     (if doc_id r \<in> set (map doc_id (documents s)) then None
      else if (case doc_employee_id r of None \<Rightarrow> False
               | Some e \<Rightarrow> e \<notin> set (map emp_id (employees s))) then None
      else if (case doc_original_document_id r of None \<Rightarrow> False
               | Some o' \<Rightarrow> o' \<notin> set (map doc_id (documents s))) then None
      else if (case doc_file_size r of None \<Rightarrow> False
               | Some n \<Rightarrow> n < - 2147483648 \<or> 2147483647 < n) then None
      else Some (s\<lparr>documents := documents s @ [r]\<rparr>))"

text \<open>
  \<^verbatim>\<open>.update(...).eq('id', i)\<close> on \<^verbatim>\<open>documents\<close>: every row with that id gets the new
  values, and the trigger \<^verbatim>\<open>update_documents_updated_at\<close> (before update, for each row)
  sets its \<^verbatim>\<open>updated_at\<close> to \<^verbatim>\<open>now()\<close>. No row with that id is no error.
\<close>

definition update_documents :: "uuid \<Rightarrow> (Document \<Rightarrow> Document) \<Rightarrow> world \<Rightarrow> db \<Rightarrow> db" where
  "update_documents i vals w s =
     s\<lparr>documents :=
         map (\<lambda>r. if doc_id r = i then (vals r)\<lparr>doc_updated_at := db_now w\<rparr> else r)
           (documents s)\<rparr>"

definition insert_into_legal_holds :: "LegalHold \<Rightarrow> db \<Rightarrow> db option" where
  "insert_into_legal_holds r s =
     (if hold_id r \<in> set (map hold_id (legal_holds s)) then None
      else Some (s\<lparr>legal_holds := legal_holds s @ [r]\<rparr>))"

text \<open>
  The insert into \<^verbatim>\<open>activity_logs\<close> that ends each handler. Its answer is not looked
  at: when the service answers with an error (\<open>log_ok\<close> is false) or the key is taken,
  the table stays as it is and the handler goes on.
\<close>

definition insert_into_activity_logs ::
  "string \<Rightarrow> uuid \<Rightarrow> string \<Rightarrow> string \<Rightarrow> string \<Rightarrow> string \<Rightarrow> world \<Rightarrow> db \<Rightarrow> db" where
  "insert_into_activity_logs entity_type entity_id event_type actor_name actor_role descr w s =
     (if \<not> log_ok w \<or> uuid_second w \<in> set (map log_id (activity_logs s)) then s
      else s\<lparr>activity_logs := activity_logs s @
             [\<lparr>log_id = uuid_second w, log_entity_type = entity_type,
               log_entity_id = Some entity_id, log_event_type = event_type,
               log_actor_name = actor_name, log_actor_role = actor_role,
               log_description = descr, log_metadata = ''{}'',
               log_created_at = db_now w\<rparr>]\<rparr>)"

text \<open>
  \<^verbatim>\<open>.maybeSingle()\<close>: the row when exactly one matches; no data when none matches, when
  several match, or when the request fails.
\<close>

definition maybeSingle :: "bool \<Rightarrow> 'a list \<Rightarrow> 'a option" where
  "maybeSingle ok rows = (if \<not> ok then None else case rows of [r] \<Rightarrow> Some r | _ \<Rightarrow> None)"

section \<open>Upload page: submission\<close>

text \<open>
  \<^verbatim>\<open>handleSubmit\<close> of the upload page, over the page's state \<^verbatim>\<open>documentType\<close>, \<^verbatim>\<open>files\<close>
  and \<^verbatim>\<open>notes\<close>. The columns it does not name take the table's defaults. It shows
  \<^verbatim>\<open>Success!\<close> and keeps the new id, or shows \<^verbatim>\<open>Submission failed\<close>.
\<close>

definition handleSubmit_upload ::
  "string \<Rightarrow> FileWithPreview list \<Rightarrow> string \<Rightarrow> world \<Rightarrow> db \<Rightarrow> (error + uuid \<times> toast) \<times> db" where
  "handleSubmit_upload documentType files notes w s =
     (let employeeData =
            maybeSingle (read_ok w)
              (filter (\<lambda>e. emp_email e = ''john.doe@company.com'') (employees s));
          employeeId =
            (case employeeData of None \<Rightarrow> ''11111111-1111-1111-1111-111111111111''
             | Some e \<Rightarrow> or_else (emp_id e) ''11111111-1111-1111-1111-111111111111'');
          docData =
            \<lparr>doc_id = uuid_first w,
             doc_employee_id = Some employeeId,
             doc_type = Some (or_else documentType ''Other''),
             doc_status = ''received'',
             doc_source = Some ''upload'',
             doc_file_url = None,
             doc_file_name =
               Some (case files of [] \<Rightarrow> ''document.pdf''
                     | f # _ \<Rightarrow> or_else (file_name f) ''document.pdf''),
             doc_file_size = Some (case files of [] \<Rightarrow> 0 | f # _ \<Rightarrow> int (file_size f)),
             doc_issue_date = None,
             doc_expiration_date = None,
             doc_priority = Some ''medium'',
             doc_notes = (if notes \<noteq> [] then Some notes else None),
             doc_reviewed_by = None,
             doc_reviewed_at = None,
             doc_version = Some 1,
             doc_original_document_id = None,
             doc_created_at = db_now w,
             doc_updated_at = db_now w\<rparr>
      in case (if write_ok w then insert_into_documents docData s else None) of
           None \<Rightarrow>
             (Inl (RequestFailed \<lparr>toast_title = ''Submission failed'',
                                  toast_description = ''Please try again'',
                                  toast_variant = Some ''destructive''\<rparr>), s)
         | Some s1 \<Rightarrow>
             (Inr (doc_id docData,
                   \<lparr>toast_title = ''Success!'',
                    toast_description = ''Your document has been submitted'',
                    toast_variant = None\<rparr>),
              insert_into_activity_logs ''document'' (doc_id docData) ''submitted''
                ''John Doe'' ''employee'' ''Document submitted via upload'' w s1))"



section \<open>Legal holds page: creation\<close>

text \<open>\<^verbatim>\<open>handleSubmit\<close> of the page that creates a legal hold.\<close>

definition handleSubmit_legal_hold ::
  "string \<Rightarrow> string \<Rightarrow> string \<Rightarrow> string \<Rightarrow> string \<Rightarrow> world \<Rightarrow> db \<Rightarrow> (error + toast) \<times> db" where
  "handleSubmit_legal_hold title reason scope department docCategory w s =
     (if trim title = [] then
        (Inl (ValidationError
               \<lparr>toast_title = ''Title required'',
                toast_description = ''Please provide a title for this legal hold'',
                toast_variant = Some ''destructive''\<rparr>), s)
      else
        let holdData =
              \<lparr>hold_id = uuid_first w,
               hold_title = trim title,
               hold_reason = (if trim reason \<noteq> [] then Some (trim reason) else None),
               hold_status = Some ''active'',
               hold_created_by = ''Sarah Chen'',
               hold_employee_ids = None,
               hold_department =
                 (if scope = ''department'' \<and> department \<noteq> [] then Some department
                  else None),
               hold_document_category =
                 (if scope = ''department'' \<and> department \<noteq> [] then None
                  else if scope = ''category'' \<and> docCategory \<noteq> [] then Some docCategory
                  else None),
               hold_date_from = None,
               hold_date_to = None,
               hold_created_at = db_now w,
               hold_released_at = None\<rparr>
        in case (if write_ok w then insert_into_legal_holds holdData s else None) of
             None \<Rightarrow>
               (Inl (RequestFailed \<lparr>toast_title = ''Error'',
                                    toast_description = ''Failed to create legal hold'',
                                    toast_variant = Some ''destructive''\<rparr>), s)
           | Some s1 \<Rightarrow>
               (Inr \<lparr>toast_title = ''Legal hold created'',
                     toast_description = ''Documents matching this hold are now protected'',
                     toast_variant = None\<rparr>,
                insert_into_activity_logs ''hold'' (hold_id holdData) ''hold_applied''
                  ''Sarah Chen'' ''hr_admin'' (''Legal hold created: '' @ title) w s1))"

section \<open>Review page\<close>

text \<open>
  The state of the page that reviews one document: the document as \<^verbatim>\<open>loadData\<close> read it,
  the selected type, the notes typed into the rejection dialog, and which dialog is open.
\<close>

record review_page =
  document :: "Document option"
  documentType :: string
  rejectNotes :: string
  showApproveDialog :: bool
  showRejectDialog :: bool

definition loadData :: "uuid \<Rightarrow> world \<Rightarrow> db \<Rightarrow> review_page" where
  "loadData i w s =
     (let docData = maybeSingle (read_ok w) (filter (\<lambda>d. doc_id d = i) (documents s))
      in \<lparr>document = docData,
          documentType =
            (case docData of None \<Rightarrow> []
             | Some d \<Rightarrow> (case doc_type d of None \<Rightarrow> [] | Some t \<Rightarrow> t)),
          rejectNotes = [],
          showApproveDialog = False,
          showRejectDialog = False\<rparr>)"

text \<open>\<^verbatim>\<open>documentType || document.type\<close>, the type both handlers write.\<close>

definition reviewedType :: "review_page \<Rightarrow> Document \<Rightarrow> string option" where
  "reviewedType p d = (if documentType p \<noteq> [] then Some (documentType p) else doc_type d)"

definition handleApprove :: "review_page \<Rightarrow> world \<Rightarrow> db \<Rightarrow> (error + toast) \<times> db" where
  "handleApprove p w s =
     (case document p of
        None \<Rightarrow> (Inl NoDocument, s)
      | Some d \<Rightarrow>
          if \<not> write_ok w then
            (Inl (RequestFailed \<lparr>toast_title = ''Error'',
                                 toast_description = ''Failed to approve document'',
                                 toast_variant = Some ''destructive''\<rparr>), s)
          else
            (Inr \<lparr>toast_title = ''Document approved'',
                  toast_description = ''The employee will be notified'',
                  toast_variant = None\<rparr>,
             insert_into_activity_logs ''document'' (doc_id d) ''approved''
               ''Sarah Chen'' ''hr_admin'' ''Document approved'' w
               (update_documents (doc_id d)
                  (\<lambda>r. r\<lparr>doc_status := ''approved'',
                          doc_reviewed_by := Some ''Sarah Chen'',
                          doc_reviewed_at := Some (client_now w),
                          doc_type := reviewedType p d\<rparr>) w s)))"

definition handleReject :: "review_page \<Rightarrow> world \<Rightarrow> db \<Rightarrow> (error + toast) \<times> db" where
  "handleReject p w s =
     (if document p = None \<or> trim (rejectNotes p) = [] then
        (Inl (ValidationError
               \<lparr>toast_title = ''Notes required'',
                toast_description = ''Please provide a reason for rejection'',
                toast_variant = Some ''destructive''\<rparr>), s)
      else
        case document p of
          None \<Rightarrow> (Inl NoDocument, s)
        | Some d \<Rightarrow>
            if \<not> write_ok w then
              (Inl (RequestFailed \<lparr>toast_title = ''Error'',
                                   toast_description = ''Failed to reject document'',
                                   toast_variant = Some ''destructive''\<rparr>), s)
            else
              (Inr \<lparr>toast_title = ''Document rejected'',
                    toast_description = ''The employee will be notified to resubmit'',
                    toast_variant = None\<rparr>,
               insert_into_activity_logs ''document'' (doc_id d) ''rejected''
                 ''Sarah Chen'' ''hr_admin'' (''Document rejected: '' @ rejectNotes p) w
                 (update_documents (doc_id d)
                    (\<lambda>r. r\<lparr>doc_status := ''rejected'',
                            doc_reviewed_by := Some ''Sarah Chen'',
                            doc_reviewed_at := Some (client_now w),
                            doc_notes := Some (rejectNotes p),
                            doc_type := reviewedType p d\<rparr>) w s)))"

text \<open>
  What the reviewer can do on the page. The card with the two review buttons is rendered
  when \<^verbatim>\<open>document.status !== 'approved' && document.status !== 'rejected'\<close> (and the page
  has a document at all); only these buttons open the dialogs, and only an open dialog
  shows its confirm button.
\<close>

definition reviewActionsShown :: "review_page \<Rightarrow> bool" where
  "reviewActionsShown p =
     (case document p of None \<Rightarrow> False
      | Some d \<Rightarrow> doc_status d \<noteq> ''approved'' \<and> doc_status d \<noteq> ''rejected'')"

datatype event =
    SetDocumentType string
  | SetRejectNotes string
  | ClickApprove
  | ClickReject
  | CloseApproveDialog
  | CloseRejectDialog

fun ui :: "review_page \<Rightarrow> event \<Rightarrow> review_page" where
  "ui p (SetDocumentType t) = (if document p = None then p else p\<lparr>documentType := t\<rparr>)"
| "ui p (SetRejectNotes n) = (if showRejectDialog p then p\<lparr>rejectNotes := n\<rparr> else p)"
| "ui p ClickApprove = (if reviewActionsShown p then p\<lparr>showApproveDialog := True\<rparr> else p)"
| "ui p ClickReject = (if reviewActionsShown p then p\<lparr>showRejectDialog := True\<rparr> else p)"
| "ui p CloseApproveDialog = p\<lparr>showApproveDialog := False\<rparr>"
| "ui p CloseRejectDialog = p\<lparr>showRejectDialog := False\<rparr>"

text \<open>Pressing \<^verbatim>\<open>Confirm Approval\<close>: \<open>None\<close> when the page shows no such button.\<close>

definition confirmApproval ::
  "review_page \<Rightarrow> world \<Rightarrow> db \<Rightarrow> ((error + toast) \<times> db) option" where
  "confirmApproval p w s =
     (if document p \<noteq> None \<and> showApproveDialog p then Some (handleApprove p w s) else None)"

section \<open>Runs of the application\<close>

text \<open>
  The operations that write to the database, each with the page state it is called on
  and what the world answers.
\<close>

datatype operation =
    Submit string "FileWithPreview list" string world
  | Approve review_page world
  | Reject review_page world
  | CreateHold string string string string string world

fun exec :: "db \<Rightarrow> operation \<Rightarrow> db" where
  "exec s (Submit t fs n w) = snd (handleSubmit_upload t fs n w s)"
| "exec s (Approve p w) = snd (handleApprove p w s)"
| "exec s (Reject p w) = snd (handleReject p w s)"
| "exec s (CreateHold t r sc d c w) = snd (handleSubmit_legal_hold t r sc d c w s)"

definition run :: "db \<Rightarrow> operation list \<Rightarrow> db" where
  "run s ops = foldl exec s ops"

text \<open>The database right after the migration: every table empty.\<close>

definition empty_db :: db where
  "empty_db = \<lparr>employees = [], documents = [], legal_holds = [], activity_logs = []\<rparr>"

section \<open>Properties of the database\<close>

text \<open>Every approved document names its reviewer and the time of the review.\<close>

definition approved_reviewed :: "db \<Rightarrow> bool" where
  "approved_reviewed s =
     list_all (\<lambda>d. doc_status d = ''approved'' \<longrightarrow>
                    doc_reviewed_by d \<noteq> None \<and> doc_reviewed_at d \<noteq> None) (documents s)"

text \<open>The row that the upload page's \<^verbatim>\<open>handleSubmit\<close> adds to \<^verbatim>\<open>activity_logs\<close>.\<close>

definition submitted_entry :: "uuid \<Rightarrow> world \<Rightarrow> ActivityLog" where
  "submitted_entry i w =
     \<lparr>log_id = uuid_second w, log_entity_type = ''document'', log_entity_id = Some i,
      log_event_type = ''submitted'', log_actor_name = ''John Doe'',
      log_actor_role = ''employee'', log_description = ''Document submitted via upload'',
      log_metadata = ''{}'', log_created_at = db_now w\<rparr>"

section \<open>Retention dates and legal holds\<close>

text \<open>
  The repository has the tables \<^verbatim>\<open>retention_policies\<close> and \<^verbatim>\<open>legal_holds\<close> and the page
  that creates a hold, but no code that computes a retention date, matches a document
  against a hold or releases a hold. The definitions of this section follow the
  specification's sections 4.2 and 4.3, over the attributes of employee, document, policy
  and hold that these sections read. A date is a day number, so adding a number of days
  counts calendar days.
\<close>

record compliance_employee =
  ce_id :: uuid
  ce_work_state :: string
  ce_department :: string

record compliance_document =
  cd_type :: string
  cd_created_at :: date

record retention_policy =
  pol_state :: string
  pol_document_type :: string
  pol_retention_period_days :: int
  pol_is_override :: bool
  pol_start_event :: string

text \<open>
  The policy table: the policies keyed by jurisdiction and document type, and the global
  default, which is there only when it has been entered explicitly.
\<close>

record policy_table =
  policies :: "retention_policy list"
  global_default :: "retention_policy option"

datatype retention_error = PolicyNotFoundError

text \<open>
  Modelled from the spec: the lookup key of step 1 of \<^verbatim>\<open>compute_retention_eligible_at\<close>,
  \<^verbatim>\<open>(employee.work_state, document.type)\<close>; the function is not in the repository.
\<close>

definition policy_for :: "compliance_employee \<Rightarrow> compliance_document \<Rightarrow> retention_policy \<Rightarrow> bool" where
  "policy_for e d p = (pol_state p = ce_work_state e \<and> pol_document_type p = cd_type d)"

text \<open>
  Modelled from the spec: step 2 of \<^verbatim>\<open>compute_retention_eligible_at\<close>, which is not in
  the repository: an override policy for the key if there is one, else the non-override
  policy for the key, else the explicit global default, else nothing.
\<close>

definition resolve_policy ::
  "compliance_employee \<Rightarrow> compliance_document \<Rightarrow> policy_table \<Rightarrow> retention_policy option" where
  "resolve_policy e d tbl =
     (case find (\<lambda>p. policy_for e d p \<and> pol_is_override p) (policies tbl) of
        Some p \<Rightarrow> Some p
      | None \<Rightarrow>
          (case find (\<lambda>p. policy_for e d p \<and> \<not> pol_is_override p) (policies tbl) of
             Some p \<Rightarrow> Some p
           | None \<Rightarrow> global_default tbl))"

text \<open>
  Modelled from the spec: \<^verbatim>\<open>compute_retention_eligible_at(employee, document,
  policy_table)\<close>, which is not in the repository. The specification gives the anchor date
  of a start event by example only, so the function \<open>anchor_date\<close> that reads it off the
  start event, the employee and the document is a parameter.
\<close>

definition compute_retention_eligible_at ::
  "(string \<Rightarrow> compliance_employee \<Rightarrow> compliance_document \<Rightarrow> date) \<Rightarrow>
   compliance_employee \<Rightarrow> compliance_document \<Rightarrow> policy_table \<Rightarrow> retention_error + date" where
  "compute_retention_eligible_at anchor_date e d tbl =
     (case resolve_policy e d tbl of
        None \<Rightarrow> Inl PolicyNotFoundError
      | Some p \<Rightarrow> Inr (anchor_date (pol_start_event p) e d + pol_retention_period_days p))"

text \<open>The date that the claim names for a policy \<open>p\<close>: anchor date plus retention period.\<close>

definition retention_date ::
  "(string \<Rightarrow> compliance_employee \<Rightarrow> compliance_document \<Rightarrow> date) \<Rightarrow>
   compliance_employee \<Rightarrow> compliance_document \<Rightarrow> retention_policy \<Rightarrow> retention_error + date" where
  "retention_date anchor_date e d p =
     Inr (anchor_date (pol_start_event p) e d + pol_retention_period_days p)"

text \<open>The scope of a hold as the tagged union of the specification's design notes.\<close>

datatype hold_scope =
    AllDocuments
  | ByEmployeeSet "uuid list"
  | ByDepartment string
  | ByCategory string
  | ByDateRange date date

record hold =
  h_id :: uuid
  h_scope :: hold_scope
  h_status :: string

text \<open>
  Modelled from the spec: \<^verbatim>\<open>document_matches_hold(document, employee, hold)\<close> of section
  4.3, one case per scope; the function is not in the repository.
\<close>

fun scope_matches :: "compliance_document \<Rightarrow> compliance_employee \<Rightarrow> hold_scope \<Rightarrow> bool" where
  "scope_matches d e AllDocuments = True"
| "scope_matches d e (ByEmployeeSet employee_ids) = (ce_id e \<in> set employee_ids)"
| "scope_matches d e (ByDepartment department) = (ce_department e = department)"
| "scope_matches d e (ByCategory document_category) = (cd_type d = document_category)"
| "scope_matches d e (ByDateRange date_from date_to) =
     (date_from \<le> cd_created_at d \<and> cd_created_at d \<le> date_to)"

definition document_matches_hold :: "compliance_document \<Rightarrow> compliance_employee \<Rightarrow> hold \<Rightarrow> bool" where
  "document_matches_hold d e h = scope_matches d e (h_scope h)"

text \<open>
  Modelled from the spec: whether a document is held, which is not in the repository:
  the matcher is run against all holds whose status is \<^verbatim>\<open>active\<close>; nothing is counted.
\<close>

definition is_held :: "compliance_document \<Rightarrow> compliance_employee \<Rightarrow> hold list \<Rightarrow> bool" where
  "is_held d e holds =
     list_ex (document_matches_hold d e) (filter (\<lambda>h. h_status h = ''active'') holds)"

text \<open>
  Modelled from the spec: releasing a hold, which is not in the repository: the hold's
  status becomes \<^verbatim>\<open>released\<close>; its scope and the other holds stay.
\<close>

definition release_hold :: "uuid \<Rightarrow> hold list \<Rightarrow> hold list" where
  "release_hold i holds = map (\<lambda>h. if h_id h = i then h\<lparr>h_status := ''released''\<rparr> else h) holds"

section \<open>Sample data\<close>

definition john :: Employee where
  "john = \<lparr>emp_id = ''e1'', emp_email = ''john.doe@company.com'', emp_name = ''John Doe'',
            emp_phone = None, emp_department = Some ''Engineering'', emp_state = Some ''TX'',
            emp_status = Some ''active'', emp_created_at = 0, emp_updated_at = 0\<rparr>"

definition doc1 :: "string \<Rightarrow> Document" where
  "doc1 st = \<lparr>doc_id = ''d1'', doc_employee_id = Some ''e1'', doc_type = Some ''I-9'',
               doc_status = st, doc_source = Some ''upload'', doc_file_url = None,
               doc_file_name = Some ''i9.pdf'', doc_file_size = Some 1000,
               doc_issue_date = None, doc_expiration_date = None,
               doc_priority = Some ''medium'', doc_notes = None, doc_reviewed_by = None,
               doc_reviewed_at = None, doc_version = Some 1,
               doc_original_document_id = None, doc_created_at = 1, doc_updated_at = 1\<rparr>"

definition db1 :: "string \<Rightarrow> db" where
  "db1 st = \<lparr>employees = [john], documents = [doc1 st], legal_holds = [], activity_logs = []\<rparr>"



definition world1 :: world where
  "world1 = \<lparr>client_now = 100, db_now = 101, uuid_first = ''u1'', uuid_second = ''u2'',
              read_ok = True, write_ok = True, log_ok = True\<rparr>"

definition approved_toast :: toast where
  "approved_toast = \<lparr>toast_title = ''Document approved'',
                      toast_description = ''The employee will be notified'',
                      toast_variant = None\<rparr>"

definition success_toast :: toast where
  "success_toast = \<lparr>toast_title = ''Success!'',
                     toast_description = ''Your document has been submitted'',
                     toast_variant = None\<rparr>"

definition tx_employee :: compliance_employee where
  "tx_employee = \<lparr>ce_id = ''e1'', ce_work_state = ''TX'', ce_department = ''Engineering''\<rparr>"

definition i9_document :: compliance_document where
  "i9_document = \<lparr>cd_type = ''I-9'', cd_created_at = 19700\<rparr>"

definition tx_default :: retention_policy where
  "tx_default = \<lparr>pol_state = ''TX'', pol_document_type = ''I-9'',
                  pol_retention_period_days = 1460, pol_is_override = False,
                  pol_start_event = ''termination''\<rparr>"

definition tx_override :: retention_policy where
  "tx_override = \<lparr>pol_state = ''TX'', pol_document_type = ''I-9'',
                   pol_retention_period_days = 2555, pol_is_override = True,
                   pol_start_event = ''termination''\<rparr>"

definition hold_a :: hold where
  "hold_a = \<lparr>h_id = ''A'', h_scope = ByCategory ''I-9'', h_status = ''active''\<rparr>"

definition hold_b :: hold where
  "hold_b = \<lparr>h_id = ''B'', h_scope = AllDocuments, h_status = ''active''\<rparr>"

section \<open>Helper lemmas\<close>

lemma dropWhile_all: "(\<forall>x \<in> set (dropWhile P xs). P x) \<longleftrightarrow> dropWhile P xs = []"
proof
  assume all: "\<forall>x \<in> set (dropWhile P xs). P x"
  show "dropWhile P xs = []"
  proof (rule ccontr)
    assume ne: "dropWhile P xs \<noteq> []"
    then have "\<not> P (hd (dropWhile P xs))" by (rule hd_dropWhile)
    moreover from ne have "hd (dropWhile P xs) \<in> set (dropWhile P xs)" by simp
    ultimately show False using all by blast
  qed
next
  assume e: "dropWhile P xs = []"
  show "\<forall>x \<in> set (dropWhile P xs). P x" unfolding e by simp
qed

lemma trim_blank_iff: "trim n = [] \<longleftrightarrow> list_all isWhiteSpace n"
proof -
  have "trim n = [] \<longleftrightarrow> (\<forall>x \<in> set (dropWhile isWhiteSpace n). isWhiteSpace x)"
    by (simp add: trim_def)
  also have "\<dots> \<longleftrightarrow> dropWhile isWhiteSpace n = []" by (rule dropWhile_all)
  also have "\<dots> \<longleftrightarrow> list_all isWhiteSpace n" by (simp add: list_all_iff)
  finally show ?thesis .
qed

lemma documents_insert_log [simp]:
  "documents (insert_into_activity_logs a b c d e f w s) = documents s"
  by (simp add: insert_into_activity_logs_def)

lemma logs_insert_log:
  "prefix (activity_logs s) (activity_logs (insert_into_activity_logs a b c d e f w s))"
  by (simp add: insert_into_activity_logs_def)

lemma logs_update_documents [simp]:
  "activity_logs (update_documents i v w s) = activity_logs s"
  by (simp add: update_documents_def)

lemma insert_into_documents_Some:
  "insert_into_documents r s = Some s1 \<Longrightarrow>
     s1 = s\<lparr>documents := documents s @ [r]\<rparr> \<and> doc_id r \<notin> set (map doc_id (documents s))"
  by (auto simp: insert_into_documents_def split: if_splits)

lemma insert_into_legal_holds_Some:
  "insert_into_legal_holds r s = Some s1 \<Longrightarrow>
     activity_logs s1 = activity_logs s \<and> documents s1 = documents s"
  by (auto simp: insert_into_legal_holds_def split: if_splits)

lemma logs_insert_log_after:
  "activity_logs s1 = activity_logs s \<Longrightarrow>
   prefix (activity_logs s) (activity_logs (insert_into_activity_logs a b c d e f w s1))"
  by (simp add: insert_into_activity_logs_def)

lemma handleSubmit_legal_hold_frame:
  "documents (snd (handleSubmit_legal_hold t r sc d c w s)) = documents s \<and>
   prefix (activity_logs s) (activity_logs (snd (handleSubmit_legal_hold t r sc d c w s)))"
  unfolding handleSubmit_legal_hold_def Let_def
  by (cases "trim t = []"; cases "write_ok w")
     (auto split: option.splits split del: if_split dest!: insert_into_legal_holds_Some
        intro: logs_insert_log_after)

lemma exec_logs: "prefix (activity_logs s) (activity_logs (exec s x))"
proof (cases x)
  case (Submit t fs n w)
  then show ?thesis
    by (auto simp: handleSubmit_upload_def Let_def insert_into_activity_logs_def
        split: option.splits if_splits dest!: insert_into_documents_Some)
next
  case (Approve p w)
  then show ?thesis
    by (cases "document p") (auto simp: handleApprove_def insert_into_activity_logs_def)
next
  case (Reject p w)
  then show ?thesis
    by (cases "document p") (auto simp: handleReject_def insert_into_activity_logs_def)
next
  case (CreateHold t r sc d c w)
  then show ?thesis
    by (simp add: handleSubmit_legal_hold_frame)
qed

lemma exec_approved_reviewed: "approved_reviewed s \<Longrightarrow> approved_reviewed (exec s x)"
proof (cases x)
  case (Submit t fs n w)
  assume "approved_reviewed s"
  with Submit show ?thesis
    by (auto simp: handleSubmit_upload_def Let_def approved_reviewed_def
        split: option.splits if_splits dest!: insert_into_documents_Some)
next
  case (Approve p w)
  assume "approved_reviewed s"
  with Approve show ?thesis
    by (cases "document p")
      (auto simp: handleApprove_def approved_reviewed_def update_documents_def list_all_iff)
next
  case (Reject p w)
  assume "approved_reviewed s"
  with Reject show ?thesis
    by (cases "document p")
      (auto simp: handleReject_def approved_reviewed_def update_documents_def list_all_iff)
next
  case (CreateHold t r sc d c w)
  assume "approved_reviewed s"
  with CreateHold show ?thesis
    by (simp add: approved_reviewed_def handleSubmit_legal_hold_frame)
qed

lemma ui_document: "document (ui p e) = document p"
  by (cases e) auto

lemma ui_gate:
  "(showApproveDialog p \<longrightarrow> reviewActionsShown p) \<Longrightarrow>
   (showApproveDialog (ui p e) \<longrightarrow> reviewActionsShown (ui p e))"
  by (cases e) (auto simp: reviewActionsShown_def)

lemma foldl_ui_gate:
  "(showApproveDialog p \<longrightarrow> reviewActionsShown p) \<Longrightarrow>
   (showApproveDialog (foldl ui p es) \<longrightarrow> reviewActionsShown (foldl ui p es))"
proof (induction es arbitrary: p)
  case Nil
  then show ?case by simp
next
  case (Cons e es)
  from Cons.prems have "showApproveDialog (ui p e) \<longrightarrow> reviewActionsShown (ui p e)"
    by (rule ui_gate)
  then show ?case using Cons.IH by simp
qed

lemma foldl_ui_document: "document (foldl ui p es) = document p"
  by (induction es arbitrary: p) (simp_all add: ui_document)

lemma maybeSingle_Some: "maybeSingle ok rows = Some x \<Longrightarrow> rows = [x]"
  unfolding maybeSingle_def
  by (cases rows; cases "tl rows") (simp_all split: if_splits)

lemma maybeSingle_filter:
  "maybeSingle ok (filter P xs) = Some x \<Longrightarrow> x \<in> set xs \<and> P x"
proof -
  assume "maybeSingle ok (filter P xs) = Some x"
  then have "filter P xs = [x]" by (rule maybeSingle_Some)
  then have "x \<in> set (filter P xs)" by simp
  then show ?thesis by simp
qed

lemma handleApprove_accepted:
  assumes "document pg = Some d" and "write_ok w"
  shows "fst (handleApprove pg w s) = Inr approved_toast"
    and "map doc_id (documents (snd (handleApprove pg w s))) = map doc_id (documents s)"
    and "\<forall>r \<in> set (documents (snd (handleApprove pg w s))).
           doc_id r = doc_id d \<longrightarrow>
             doc_status r = ''approved'' \<and> doc_reviewed_by r = Some ''Sarah Chen'' \<and>
             doc_reviewed_at r = Some (client_now w)"
  using assms
  by (auto simp: handleApprove_def update_documents_def approved_toast_def
      insert_into_activity_logs_def)


lemma find_exists: "\<exists>x \<in> set xs. P x \<Longrightarrow> \<exists>y. find P xs = Some y \<and> y \<in> set xs \<and> P y"
  by (induction xs) auto

lemma is_held_iff:
  "is_held d e holds \<longleftrightarrow>
     (\<exists>h \<in> set holds. h_status h = ''active'' \<and> document_matches_hold d e h)"
  by (auto simp: is_held_def list_ex_iff)

lemma sample_submit:
  "fst (handleSubmit_upload ''W-4'' [] [] world1 (db1 ''rejected'')) = Inr (''u1'', success_toast)"
  by (simp add: handleSubmit_upload_def Let_def maybeSingle_def world1_def db1_def
      john_def doc1_def or_else_def insert_into_documents_def success_toast_def)

lemma sample_approve:
  "fst (handleApprove (loadData ''d1'' world1 (db1 ''received'')) world1 (db1 ''received'')) =
     Inr approved_toast"
  by (simp add: loadData_def maybeSingle_def db1_def doc1_def world1_def
      handleApprove_def approved_toast_def)

section \<open>Rejection needs a reason\<close>

text \<open>
  C1. For every document and every rejection reason that is empty or consists only of
  white space, \<^verbatim>\<open>handleReject\<close> fails with the validation error (the destructive toast
  \<^verbatim>\<open>Notes required\<close>), sends no request, and leaves the database, and so every field of
  every document, as it was before the call.
\<close>

theorem reject_blank_reason:
  assumes "list_all isWhiteSpace (rejectNotes p)"
  shows "handleReject p w s =
           (Inl (ValidationError
                  \<lparr>toast_title = ''Notes required'',
                   toast_description = ''Please provide a reason for rejection'',
                   toast_variant = Some ''destructive''\<rparr>), s)"
  using assms by (simp add: handleReject_def trim_blank_iff)

theorem reject_blank_reason_witness:
  "list_all isWhiteSpace [CHR 0x20, CHR 0x09, CHR 0x0A] \<and>
   handleReject \<lparr>document = Some (doc1 ''received''), documentType = ''I-9'',
                 rejectNotes = [CHR 0x20, CHR 0x09, CHR 0x0A],
                 showApproveDialog = False, showRejectDialog = True\<rparr> world1 (db1 ''received'') =
     (Inl (ValidationError
            \<lparr>toast_title = ''Notes required'',
             toast_description = ''Please provide a reason for rejection'',
             toast_variant = Some ''destructive''\<rparr>), db1 ''received'')"
proof -
  let ?p = "\<lparr>document = Some (doc1 ''received''), documentType = ''I-9'',
             rejectNotes = [CHR 0x20, CHR 0x09, CHR 0x0A],
             showApproveDialog = False, showRejectDialog = True\<rparr>"
  have blank: "list_all isWhiteSpace [CHR 0x20, CHR 0x09, CHR 0x0A]"
    by (simp add: isWhiteSpace_def)
  then have "list_all isWhiteSpace (rejectNotes ?p)" by simp
  from reject_blank_reason [OF this] blank show ?thesis by simp
qed

section \<open>Approved documents have a reviewer\<close>

text \<open>
  C2. No operation sets a document's status to approved without setting reviewed_by and
  reviewed_at in the same update: after every sequence of operations (submit, approve,
  reject, legal-hold creation, on whatever page state and with whatever answers of the
  service) from the empty database, and from any database in which it holds, every
  document whose status is approved has reviewed_by and reviewed_at non-null.
\<close>

theorem approved_has_reviewer:
  "approved_reviewed (run empty_db ops) \<and>
   (approved_reviewed s \<longrightarrow> approved_reviewed (run s ops))"
proof -
  have *: "approved_reviewed s \<Longrightarrow> approved_reviewed (foldl exec s ops)" for s
    by (induction ops arbitrary: s) (simp_all add: exec_approved_reviewed)
  have "approved_reviewed empty_db"
    by (simp add: approved_reviewed_def empty_db_def)
  with * show ?thesis by (simp add: run_def)
qed

theorem approved_has_reviewer_witness:
  "approved_reviewed (db1 ''received'') \<and>
   approved_reviewed
     (run (db1 ''received'') [Approve (loadData ''d1'' world1 (db1 ''received'')) world1]) \<and>
   map doc_status (documents
     (run (db1 ''received'') [Approve (loadData ''d1'' world1 (db1 ''received'')) world1])) =
     [''approved'']"
proof -
  have before: "approved_reviewed (db1 ''received'')"
    by (simp add: approved_reviewed_def db1_def doc1_def)
  have "map doc_status (documents
     (run (db1 ''received'') [Approve (loadData ''d1'' world1 (db1 ''received'')) world1])) =
     [''approved'']"
    by (simp add: run_def loadData_def maybeSingle_def db1_def doc1_def world1_def
        handleApprove_def update_documents_def)
  with approved_has_reviewer [of "[Approve (loadData ''d1'' world1 (db1 ''received'')) world1]"
      "db1 ''received''"] before
  show ?thesis by simp
qed

section \<open>When a document can be approved\<close>

text \<open>
  C3, as the code has it. The review page decides on the status of the document as
  \<^verbatim>\<open>loadData\<close> read it: the review buttons are rendered when that status is neither
  approved nor rejected, they alone open the approval dialog, and \<^verbatim>\<open>handleApprove\<close>
  checks no status. So an approval through the page can succeed only when the loaded
  status is neither approved nor rejected. And whenever the loaded status is neither
  approved nor rejected (received, in_review, expired and on_hold among them), clicking
  Approve opens the dialog, and confirming succeeds as soon as the update request is
  accepted: every row with the document's id is then approved, with reviewer and review
  time, whatever its status in the database has become since the page loaded it, and
  no row is added or removed.
\<close>

theorem approve_only_when_offered:
  "(confirmApproval (foldl ui (loadData i w s) es) w' s' = Some (Inr t, s'') \<longrightarrow>
      (\<exists>d \<in> set (documents s). doc_id d = i \<and>
         document (foldl ui (loadData i w s) es) = Some d \<and>
         doc_status d \<noteq> ''approved'' \<and> doc_status d \<noteq> ''rejected'')) \<and>
   (document (loadData i w s) = Some d \<and>
    doc_status d \<noteq> ''approved'' \<and> doc_status d \<noteq> ''rejected'' \<and> write_ok w' \<longrightarrow>
      confirmApproval (foldl ui (loadData i w s) (es @ [ClickApprove])) w' s' =
        Some (Inr approved_toast,
              snd (handleApprove (foldl ui (loadData i w s) (es @ [ClickApprove])) w' s')) \<and>
      map doc_id
        (documents (snd (handleApprove (foldl ui (loadData i w s) (es @ [ClickApprove])) w' s'))) =
        map doc_id (documents s') \<and>
      (\<forall>r \<in> set (documents
                 (snd (handleApprove (foldl ui (loadData i w s) (es @ [ClickApprove])) w' s'))).
         doc_id r = i \<longrightarrow>
           doc_status r = ''approved'' \<and> doc_reviewed_by r = Some ''Sarah Chen'' \<and>
           doc_reviewed_at r = Some (client_now w')))"
proof (intro conjI impI)
  let ?p = "foldl ui (loadData i w s) es"
  assume c: "confirmApproval ?p w' s' = Some (Inr t, s'')"
  then have open': "showApproveDialog ?p"
    by (auto simp: confirmApproval_def split: if_splits)
  have "showApproveDialog (loadData i w s) \<longrightarrow> reviewActionsShown (loadData i w s)"
    by (simp add: loadData_def Let_def)
  then have "showApproveDialog ?p \<longrightarrow> reviewActionsShown ?p"
    by (rule foldl_ui_gate)
  with open' have "reviewActionsShown ?p" by simp
  then obtain d where d: "document ?p = Some d" "doc_status d \<noteq> ''approved''"
      "doc_status d \<noteq> ''rejected''"
    by (cases "document ?p") (simp_all add: reviewActionsShown_def)
  from d(1) have "document (loadData i w s) = Some d"
    by (simp add: foldl_ui_document)
  then have "maybeSingle (read_ok w) (filter (\<lambda>d. doc_id d = i) (documents s)) = Some d"
    by (simp add: loadData_def Let_def)
  then have "d \<in> set (documents s) \<and> doc_id d = i"
    by (rule maybeSingle_filter)
  with d show "\<exists>d \<in> set (documents s). doc_id d = i \<and> document ?p = Some d \<and>
      doc_status d \<noteq> ''approved'' \<and> doc_status d \<noteq> ''rejected''"
    by blast
next
  let ?q = "foldl ui (loadData i w s) es"
  let ?p = "foldl ui (loadData i w s) (es @ [ClickApprove])"
  assume a: "document (loadData i w s) = Some d \<and>
    doc_status d \<noteq> ''approved'' \<and> doc_status d \<noteq> ''rejected'' \<and> write_ok w'"
  then have q: "document ?q = Some d" by (simp add: foldl_ui_document)
  with a have "reviewActionsShown ?q" by (simp add: reviewActionsShown_def)
  then have p: "?p = ?q\<lparr>showApproveDialog := True\<rparr>" by simp
  with q have dp: "document ?p = Some d" and op: "showApproveDialog ?p" by simp_all
  from a have "maybeSingle (read_ok w) (filter (\<lambda>d. doc_id d = i) (documents s)) = Some d"
    by (simp add: loadData_def Let_def)
  then have i: "doc_id d = i" by (auto dest: maybeSingle_filter)
  from a have wok: "write_ok w'" by blast
  note ok = handleApprove_accepted [OF dp wok, where s = s']
  from dp op have "confirmApproval ?p w' s' = Some (handleApprove ?p w' s')"
    by (simp only: confirmApproval_def option.simps simp_thms if_True)
  with ok(1) show "confirmApproval ?p w' s' =
      Some (Inr approved_toast, snd (handleApprove ?p w' s'))"
    by (simp only: prod_eq_iff fst_conv snd_conv option.inject simp_thms)
  from ok(2) show "map doc_id (documents (snd (handleApprove ?p w' s'))) = map doc_id (documents s')" .
  from ok(3) i show "\<forall>r \<in> set (documents (snd (handleApprove ?p w' s'))).
         doc_id r = i \<longrightarrow>
           doc_status r = ''approved'' \<and> doc_reviewed_by r = Some ''Sarah Chen'' \<and>
           doc_reviewed_at r = Some (client_now w')"
    by (simp only:)
qed

text \<open>
  An instance: the page loads the document while it is in review; by the time the
  reviewer confirms, the row has been rejected; the approval succeeds all the same.
\<close>

theorem approve_only_when_offered_witness:
  "document (loadData ''d1'' world1 (db1 ''in_review'')) = Some (doc1 ''in_review'') \<and>
   write_ok world1 \<and>
   confirmApproval (foldl ui (loadData ''d1'' world1 (db1 ''in_review'')) [ClickApprove])
       world1 (db1 ''rejected'') =
     Some (Inr approved_toast,
           snd (handleApprove
                  (foldl ui (loadData ''d1'' world1 (db1 ''in_review'')) [ClickApprove])
                  world1 (db1 ''rejected''))) \<and>
   map doc_status (documents (db1 ''rejected'')) = [''rejected''] \<and>
   list_all (\<lambda>r. doc_status r = ''approved'')
     (documents (snd (handleApprove
                  (foldl ui (loadData ''d1'' world1 (db1 ''in_review'')) [ClickApprove])
                  world1 (db1 ''rejected'')))) \<and>
   (\<exists>d \<in> set (documents (db1 ''in_review'')). doc_id d = ''d1'' \<and>
      document (foldl ui (loadData ''d1'' world1 (db1 ''in_review'')) [ClickApprove]) = Some d \<and>
      doc_status d \<noteq> ''approved'' \<and> doc_status d \<noteq> ''rejected'')"
proof -
  let ?p = "foldl ui (loadData ''d1'' world1 (db1 ''in_review'')) [ClickApprove]"
  let ?r = "handleApprove ?p world1 (db1 ''rejected'')"
  have loaded: "document (loadData ''d1'' world1 (db1 ''in_review'')) = Some (doc1 ''in_review'')"
    by (simp add: loadData_def maybeSingle_def db1_def doc1_def world1_def)
  have st: "doc_status (doc1 ''in_review'') \<noteq> ''approved''"
      "doc_status (doc1 ''in_review'') \<noteq> ''rejected''" "write_ok world1"
    by (simp_all add: doc1_def world1_def)
  have before: "map doc_status (documents (db1 ''rejected'')) = [''rejected'']"
      "map doc_id (documents (db1 ''rejected'')) = [''d1'']"
    by (simp_all add: db1_def doc1_def)
  note can = approve_only_when_offered
    [where i = "''d1''" and w = world1 and s = "db1 ''in_review''" and es = "[]"
       and w' = world1 and s' = "db1 ''rejected''" and d = "doc1 ''in_review''",
     unfolded append_Nil]
  note only = approve_only_when_offered
    [where i = "''d1''" and w = world1 and s = "db1 ''in_review''" and es = "[ClickApprove]"
       and w' = world1 and s' = "db1 ''rejected''" and t = approved_toast and s'' = "snd ?r"]
  from can loaded st have c: "confirmApproval ?p world1 (db1 ''rejected'') =
      Some (Inr approved_toast, snd ?r)"
    and ids: "map doc_id (documents (snd ?r)) = map doc_id (documents (db1 ''rejected''))"
    and all: "\<forall>r \<in> set (documents (snd ?r)). doc_id r = ''d1'' \<longrightarrow> doc_status r = ''approved''"
    by blast+
  from ids before have "\<forall>r \<in> set (documents (snd ?r)). doc_id r = ''d1''"
    by (cases "documents (snd ?r)") auto
  with all have approved: "list_all (\<lambda>r. doc_status r = ''approved'') (documents (snd ?r))"
    by (simp add: list_all_iff)
  from only c have "\<exists>d \<in> set (documents (db1 ''in_review'')). doc_id d = ''d1'' \<and>
      document ?p = Some d \<and> doc_status d \<noteq> ''approved'' \<and> doc_status d \<noteq> ''rejected''"
    by blast
  with loaded st(3) c before(1) approved show ?thesis
    by (intro conjI)
qed

text \<open>
  A document on hold is offered for review and is approved; the claim, as stated, rules
  this out.
\<close>

theorem approve_on_hold_counterexample:
  "map_option fst
     (confirmApproval (foldl ui (loadData ''d1'' world1 (db1 ''on_hold'')) [ClickApprove])
        world1 (db1 ''on_hold'')) = Some (Inr approved_toast) \<and>
   map doc_status (documents (db1 ''on_hold'')) = [''on_hold''] \<and>
   map_option (\<lambda>r. map doc_status (documents (snd r)))
     (confirmApproval (foldl ui (loadData ''d1'' world1 (db1 ''on_hold'')) [ClickApprove])
        world1 (db1 ''on_hold'')) = Some [''approved'']"
  by (simp add: confirmApproval_def loadData_def maybeSingle_def db1_def doc1_def world1_def
      reviewActionsShown_def handleApprove_def update_documents_def approved_toast_def)

section \<open>Submission\<close>

text \<open>
  C4, as the code has it. Every successful submit appends one document with status
  received, version 1 and no original_document_id (the upload page has no resubmission
  path, and the table has no retention_eligible_at column), and inserts for it one
  activity entry whose event type is \<^verbatim>\<open>submitted\<close>; when that insert is refused, the
  handler does not notice and the log stays as it was.
\<close>

theorem submit_creates_received:
  assumes "handleSubmit_upload t fs n w s = (Inr (i, tst), s')"
  shows "\<exists>d. documents s' = documents s @ [d] \<and> doc_id d = i \<and>
             doc_status d = ''received'' \<and> doc_version d = Some 1 \<and>
             doc_original_document_id d = None \<and>
             activity_logs s' =
               (if log_ok w \<and> uuid_second w \<notin> set (map log_id (activity_logs s))
                then activity_logs s @ [submitted_entry i w] else activity_logs s)"
  using assms
  by (auto simp: handleSubmit_upload_def Let_def insert_into_activity_logs_def
      submitted_entry_def split: option.splits if_splits dest!: insert_into_documents_Some)

theorem submit_creates_received_witness:
  "fst (handleSubmit_upload ''W-4'' [] [] world1 (db1 ''rejected'')) =
     Inr (''u1'', success_toast) \<and>
   (\<exists>d. documents (snd (handleSubmit_upload ''W-4'' [] [] world1 (db1 ''rejected''))) =
          documents (db1 ''rejected'') @ [d] \<and> doc_id d = ''u1'' \<and>
          doc_status d = ''received'' \<and> doc_version d = Some 1 \<and>
          doc_original_document_id d = None \<and>
          activity_logs (snd (handleSubmit_upload ''W-4'' [] [] world1 (db1 ''rejected''))) =
            [submitted_entry ''u1'' world1])"
proof -
  let ?r = "handleSubmit_upload ''W-4'' [] [] world1 (db1 ''rejected'')"
  have r: "?r = (Inr (''u1'', success_toast), snd ?r)"
    by (simp add: prod_eq_iff sample_submit)
  have e: "activity_logs (db1 ''rejected'') = []" "log_ok world1"
    by (simp_all add: db1_def world1_def)
  have "\<exists>d. documents (snd ?r) = documents (db1 ''rejected'') @ [d] \<and> doc_id d = ''u1'' \<and>
          doc_status d = ''received'' \<and> doc_version d = Some 1 \<and>
          doc_original_document_id d = None \<and>
          activity_logs (snd ?r) = [submitted_entry ''u1'' world1]"
    using submit_creates_received [OF r] e by simp
  with sample_submit show ?thesis by blast
qed

text \<open>
  The entry that a successful submit writes has the event type \<^verbatim>\<open>submitted\<close>; no entry
  \<^verbatim>\<open>document.received\<close> is written.
\<close>

theorem submit_event_type_counterexample:
  "fst (handleSubmit_upload ''W-4'' [] [] world1 (db1 ''rejected'')) =
     Inr (''u1'', success_toast) \<and>
   map log_event_type
     (activity_logs (snd (handleSubmit_upload ''W-4'' [] [] world1 (db1 ''rejected'')))) =
     [''submitted''] \<and>
   ''document.received'' \<notin> set (map log_event_type
     (activity_logs (snd (handleSubmit_upload ''W-4'' [] [] world1 (db1 ''rejected'')))))"
  by (simp add: handleSubmit_upload_def Let_def maybeSingle_def world1_def db1_def
      john_def doc1_def or_else_def insert_into_documents_def insert_into_activity_logs_def
      success_toast_def)

section \<open>Resubmission\<close>




section \<open>Retention date\<close>

text \<open>
  C6. \<^verbatim>\<open>compute_retention_eligible_at\<close> returns the anchor date plus the policy's
  retention period in days, where the policy is an override policy for the employee's
  work state and the document's type when one exists, otherwise the non-override
  policy for that pair; when the table has no policy for the pair, the result is that of
  the explicit global default, and \<^verbatim>\<open>PolicyNotFoundError\<close> when there is none: nothing is
  defaulted silently.
\<close>

theorem retention_date_from_policy:
  "((\<exists>p \<in> set (policies tbl). policy_for e d p \<and> pol_is_override p) \<longrightarrow>
      (\<exists>p \<in> set (policies tbl). policy_for e d p \<and> pol_is_override p \<and>
         compute_retention_eligible_at anchor_date e d tbl = retention_date anchor_date e d p)) \<and>
   (\<not> (\<exists>p \<in> set (policies tbl). policy_for e d p \<and> pol_is_override p) \<longrightarrow>
      (\<exists>p \<in> set (policies tbl). policy_for e d p) \<longrightarrow>
      (\<exists>p \<in> set (policies tbl). policy_for e d p \<and> \<not> pol_is_override p \<and>
         compute_retention_eligible_at anchor_date e d tbl = retention_date anchor_date e d p)) \<and>
   (\<not> (\<exists>p \<in> set (policies tbl). policy_for e d p) \<longrightarrow>
      compute_retention_eligible_at anchor_date e d tbl =
        (case global_default tbl of None \<Rightarrow> Inl PolicyNotFoundError
         | Some g \<Rightarrow> retention_date anchor_date e d g))"
proof (intro conjI impI)
  assume "\<exists>p \<in> set (policies tbl). policy_for e d p \<and> pol_is_override p"
  from find_exists [OF this] obtain p
    where "find (\<lambda>p. policy_for e d p \<and> pol_is_override p) (policies tbl) = Some p"
      and "p \<in> set (policies tbl)" and "policy_for e d p \<and> pol_is_override p"
    by blast
  then show "\<exists>p \<in> set (policies tbl). policy_for e d p \<and> pol_is_override p \<and>
         compute_retention_eligible_at anchor_date e d tbl = retention_date anchor_date e d p"
    by (auto simp: compute_retention_eligible_at_def resolve_policy_def retention_date_def)
next
  assume no: "\<not> (\<exists>p \<in> set (policies tbl). policy_for e d p \<and> pol_is_override p)"
    and some: "\<exists>p \<in> set (policies tbl). policy_for e d p"
  from no have none: "find (\<lambda>p. policy_for e d p \<and> pol_is_override p) (policies tbl) = None"
    by (simp add: find_None_iff)
  from no some have "\<exists>p \<in> set (policies tbl). policy_for e d p \<and> \<not> pol_is_override p"
    by blast
  from find_exists [OF this] obtain p
    where "find (\<lambda>p. policy_for e d p \<and> \<not> pol_is_override p) (policies tbl) = Some p"
      and "p \<in> set (policies tbl)" and "policy_for e d p \<and> \<not> pol_is_override p"
    by blast
  with none show "\<exists>p \<in> set (policies tbl). policy_for e d p \<and> \<not> pol_is_override p \<and>
         compute_retention_eligible_at anchor_date e d tbl = retention_date anchor_date e d p"
    by (auto simp: compute_retention_eligible_at_def resolve_policy_def retention_date_def)
next
  assume no: "\<not> (\<exists>p \<in> set (policies tbl). policy_for e d p)"
  then have "find (\<lambda>p. policy_for e d p \<and> pol_is_override p) (policies tbl) = None"
    "find (\<lambda>p. policy_for e d p \<and> \<not> pol_is_override p) (policies tbl) = None"
    by (auto simp: find_None_iff)
  then show "compute_retention_eligible_at anchor_date e d tbl =
        (case global_default tbl of None \<Rightarrow> Inl PolicyNotFoundError
         | Some g \<Rightarrow> retention_date anchor_date e d g)"
    by (simp add: compute_retention_eligible_at_def resolve_policy_def retention_date_def
        split: option.splits)
qed

theorem retention_date_from_policy_witness:
  "list_ex (\<lambda>p. policy_for tx_employee i9_document p \<and> pol_is_override p)
     [tx_default, tx_override] \<and>
   compute_retention_eligible_at (\<lambda>ev e d. 20240) tx_employee i9_document
     \<lparr>policies = [tx_default, tx_override], global_default = None\<rparr> = Inr (20240 + 2555) \<and>
   compute_retention_eligible_at (\<lambda>ev e d. 20240) tx_employee i9_document
     \<lparr>policies = [], global_default = None\<rparr> = Inl PolicyNotFoundError"
proof -
  let ?tbl = "\<lparr>policies = [tx_default, tx_override], global_default = None\<rparr>"
  let ?none = "\<lparr>policies = [], global_default = None\<rparr>"
  let ?a = "\<lambda>(ev::string) (e::compliance_employee) (d::compliance_document). 20240::int"
  have ex: "\<exists>p \<in> set (policies ?tbl). policy_for tx_employee i9_document p \<and> pol_is_override p"
    by (simp add: policy_for_def tx_employee_def i9_document_def tx_override_def)
  have "\<not> pol_is_override tx_default" "pol_retention_period_days tx_override = 2555"
    by (simp_all add: tx_default_def tx_override_def)
  with retention_date_from_policy [of ?tbl tx_employee i9_document ?a] ex
  have 1: "compute_retention_eligible_at ?a tx_employee i9_document ?tbl = Inr (20240 + 2555)"
    by (auto simp: retention_date_def)
  have 2: "compute_retention_eligible_at ?a tx_employee i9_document ?none =
             Inl PolicyNotFoundError"
    using retention_date_from_policy [of ?none tx_employee i9_document ?a] by simp
  from ex have "list_ex (\<lambda>p. policy_for tx_employee i9_document p \<and> pol_is_override p)
     [tx_default, tx_override]"
    by (simp add: list_ex_iff)
  with 1 2 show ?thesis by blast
qed

section \<open>Legal holds\<close>

text \<open>
  C7. A document is held if and only if it matches at least one hold whose status is
  active, under the matcher of each scope: all documents always; an employee set when the
  owning employee's id is in it; a department when it is the employee's; a category when
  it is the document's type; a date range when created_at lies in it, bounds included.
  Releasing one hold leaves the document held while another active hold matches it.
\<close>

theorem held_iff_active_match:
  "(is_held d e holds \<longleftrightarrow>
      (\<exists>h \<in> set holds. h_status h = ''active'' \<and> document_matches_hold d e h)) \<and>
   (\<forall>b \<in> set holds. h_id b \<noteq> a \<and> h_status b = ''active'' \<and> document_matches_hold d e b \<longrightarrow>
      is_held d e (release_hold a holds)) \<and>
   document_matches_hold d e (h\<lparr>h_scope := AllDocuments\<rparr>) \<and>
   (document_matches_hold d e (h\<lparr>h_scope := ByEmployeeSet ids\<rparr>) \<longleftrightarrow> ce_id e \<in> set ids) \<and>
   (document_matches_hold d e (h\<lparr>h_scope := ByDepartment dep\<rparr>) \<longleftrightarrow> ce_department e = dep) \<and>
   (document_matches_hold d e (h\<lparr>h_scope := ByCategory cat\<rparr>) \<longleftrightarrow> cd_type d = cat) \<and>
   (document_matches_hold d e (h\<lparr>h_scope := ByDateRange lo hi\<rparr>) \<longleftrightarrow>
      lo \<le> cd_created_at d \<and> cd_created_at d \<le> hi)"
proof -
  have "is_held d e (release_hold a holds)"
    if "b \<in> set holds" "h_id b \<noteq> a" "h_status b = ''active''" "document_matches_hold d e b" for b
  proof -
    from that(1,2) have "b \<in> set (release_hold a holds)"
      by (force simp: release_hold_def)
    with that(3,4) show ?thesis by (auto simp: is_held_iff)
  qed
  then show ?thesis
    by (auto simp: is_held_iff document_matches_hold_def)
qed

theorem held_iff_active_match_witness:
  "is_held i9_document tx_employee [hold_a, hold_b] \<and>
   h_id hold_b \<noteq> ''A'' \<and> h_status hold_b = ''active'' \<and>
   document_matches_hold i9_document tx_employee hold_b \<and>
   map h_status (release_hold ''A'' [hold_a, hold_b]) = [''released'', ''active''] \<and>
   is_held i9_document tx_employee (release_hold ''A'' [hold_a, hold_b])"
proof -
  have b: "hold_b \<in> set [hold_a, hold_b]" "h_id hold_b \<noteq> ''A''" "h_status hold_b = ''active''"
      "document_matches_hold i9_document tx_employee hold_b"
    by (simp_all add: hold_b_def document_matches_hold_def)
  have rel: "map h_status (release_hold ''A'' [hold_a, hold_b]) = [''released'', ''active'']"
    by (simp add: release_hold_def hold_a_def hold_b_def)
  from held_iff_active_match [of i9_document tx_employee "[hold_a, hold_b]" "''A''"] b
  have "is_held i9_document tx_employee [hold_a, hold_b]"
    and "is_held i9_document tx_employee (release_hold ''A'' [hold_a, hold_b])"
    by blast+
  with b rel show ?thesis by blast
qed

section \<open>The activity log only grows\<close>

text \<open>
  C8. Activity entries are append-only: whatever operations run (submit, approve,
  reject, legal-hold creation), the entries that were in \<^verbatim>\<open>activity_logs\<close> before are
  there afterwards, unchanged and in their order, followed by the entries the operations
  inserted.
\<close>

theorem activity_logs_append_only:
  "prefix (activity_logs s) (activity_logs (run s ops))"
  unfolding run_def
proof (induction ops arbitrary: s)
  case Nil
  show ?case by simp
next
  case (Cons x xs)
  have "prefix (activity_logs s) (activity_logs (exec s x))" by (rule exec_logs)
  also have "prefix \<dots> (activity_logs (foldl exec (exec s x) xs))" by (rule Cons.IH)
  finally show ?case by simp
qed

section \<open>What an approval changes\<close>

text \<open>
  C9, as the code has it. A successful approve changes, in the rows of the page's
  document, only status, reviewed_by, reviewed_at and type, and, through the table's
  update trigger, updated_at; every other field of these rows (employee_id, source,
  file_name, file_size, notes, version, original_document_id, created_at among them),
  every other document, and the tables of employees and legal holds are unchanged.
\<close>

theorem approve_frame:
  assumes "handleApprove p w s = (Inr t, s')"
  shows "employees s' = employees s \<and> legal_holds s' = legal_holds s \<and>
         length (documents s') = length (documents s) \<and>
         (\<forall>k < length (documents s).
            (Some (doc_id (documents s ! k)) \<noteq> map_option doc_id (document p) \<longrightarrow>
               documents s' ! k = documents s ! k) \<and>
            documents s' ! k =
              (documents s ! k)\<lparr>doc_status := doc_status (documents s' ! k),
                 doc_reviewed_by := doc_reviewed_by (documents s' ! k),
                 doc_reviewed_at := doc_reviewed_at (documents s' ! k),
                 doc_type := doc_type (documents s' ! k),
                 doc_updated_at := doc_updated_at (documents s' ! k)\<rparr>)"
  using assms
  by (cases "document p")
    (auto simp: handleApprove_def update_documents_def insert_into_activity_logs_def
      split: if_splits)

theorem approve_frame_witness:
  "fst (handleApprove (loadData ''d1'' world1 (db1 ''received'')) world1 (db1 ''received'')) =
     Inr approved_toast \<and>
   documents (snd (handleApprove (loadData ''d1'' world1 (db1 ''received'')) world1
      (db1 ''received''))) ! 0 =
     (doc1 ''received'')\<lparr>doc_status := ''approved'', doc_reviewed_by := Some ''Sarah Chen'',
        doc_reviewed_at := Some 100, doc_type := Some ''I-9'', doc_updated_at := 101\<rparr>"
proof -
  let ?r = "handleApprove (loadData ''d1'' world1 (db1 ''received'')) world1 (db1 ''received'')"
  have r: "?r = (Inr approved_toast, snd ?r)"
    by (simp add: prod_eq_iff sample_approve)
  have docs: "documents (db1 ''received'') = [doc1 ''received'']"
    by (simp add: db1_def)
  have fields: "map doc_status (documents (snd ?r)) = [''approved'']"
      "map doc_reviewed_by (documents (snd ?r)) = [Some ''Sarah Chen'']"
      "map doc_reviewed_at (documents (snd ?r)) = [Some 100]"
      "map doc_type (documents (snd ?r)) = [Some ''I-9'']"
      "map doc_updated_at (documents (snd ?r)) = [101]"
    by (simp_all add: loadData_def maybeSingle_def db1_def doc1_def world1_def
        handleApprove_def update_documents_def reviewedType_def)
  from approve_frame [OF r] docs
  have "documents (snd ?r) ! 0 =
      (doc1 ''received'')\<lparr>doc_status := doc_status (documents (snd ?r) ! 0),
         doc_reviewed_by := doc_reviewed_by (documents (snd ?r) ! 0),
         doc_reviewed_at := doc_reviewed_at (documents (snd ?r) ! 0),
         doc_type := doc_type (documents (snd ?r) ! 0),
         doc_updated_at := doc_updated_at (documents (snd ?r) ! 0)\<rparr>"
    and len: "length (documents (snd ?r)) = 1"
    by simp_all
  moreover from len fields have "doc_status (documents (snd ?r) ! 0) = ''approved''"
      "doc_reviewed_by (documents (snd ?r) ! 0) = Some ''Sarah Chen''"
      "doc_reviewed_at (documents (snd ?r) ! 0) = Some 100"
      "doc_type (documents (snd ?r) ! 0) = Some ''I-9''"
      "doc_updated_at (documents (snd ?r) ! 0) = 101"
    by (cases "documents (snd ?r)"; simp)+
  ultimately show ?thesis using sample_approve by simp
qed

text \<open>
  The approval of a document last updated at 1, by a database whose clock shows 101,
  changes its updated_at, a field outside the four that the claim allows to change.
\<close>

theorem approve_updated_at_counterexample:
  "fst (handleApprove (loadData ''d1'' world1 (db1 ''received'')) world1 (db1 ''received'')) =
     Inr approved_toast \<and>
   map doc_updated_at (documents (db1 ''received'')) = [1] \<and>
   map doc_updated_at (documents (snd (handleApprove (loadData ''d1'' world1 (db1 ''received''))
      world1 (db1 ''received'')))) = [101]"
  by (simp add: loadData_def maybeSingle_def db1_def doc1_def world1_def
      handleApprove_def update_documents_def approved_toast_def)

section \<open>File selection\<close>

lemma startsWith_prefix: "startsWith s p = prefix p s"
  by (auto simp: startsWith_def prefix_def) (metis append_eq_conv_conj)+

lemma checkFile_accepted: "snd (checkFile f) = accepted f"
  by (simp add: checkFile_def accepted_def isValidType_def isValidSize_def startsWith_prefix)

lemma truncate_withPreview: "File.truncate (withPreview u f) = f"
  by (simp add: withPreview_def File.truncate_def File.extend_def
      FileWithPreview.fields_def)

text \<open>
  C10. Of the candidate files handed to \<^verbatim>\<open>handleFiles\<close>, exactly those whose MIME type is
  \<^verbatim>\<open>application/pdf\<close> or begins with \<^verbatim>\<open>image/\<close> and whose size is at most
  10 * 1024 * 1024 bytes join the submission: the new File list is the old one followed
  by the accepted candidates, in their order, and nothing else.
\<close>

theorem handleFiles_accepts:
  "map File.truncate (snd (handleFiles createObjectURL prev newFiles)) =
     map File.truncate prev @ filter accepted newFiles"
proof -
  have "map File.truncate (map (withPreview createObjectURL) xs) = xs" for xs
    by (induction xs) (simp_all add: truncate_withPreview)
  moreover have "filter (\<lambda>f. snd (checkFile f)) newFiles = filter accepted newFiles"
    by (simp add: checkFile_accepted)
  ultimately show ?thesis
    by (simp add: handleFiles_def Let_def)
qed

end
